theory Spec2Isabelle
  imports Main "HOL-Library.AList"
begin

section \<open>Data model (package types)\<close>

text \<open>
  Go strings and byte slices are lists of bytes. Go's \<open>int\<close> is read as a mathematical
  integer; the one place where the source multiplies (the timeout in nanoseconds) has
  the 64-bit wrap-around written out.
\<close>

type_synonym bytes = string

text \<open>\<open>types.Proxy\<close> (types/config.go).\<close>

record Proxy =
  Ip :: string
  Port :: int
  Username :: string
  Password :: string
  SocksType :: int
  Timeout :: int

text \<open>\<open>types.TelegramData\<close> and \<open>types.Account\<close>; the account embeds its Telegram data.\<close>

record TelegramData =
  TdataStringSession :: string
  AppId :: string
  AppHash :: string
  TelegramId :: string

record Account =
  GameData :: string
  Telegram :: TelegramData

section \<open>Formatting (package fmt)\<close>

text \<open>The verb \<open>%d\<close> of \<open>fmt\<close>: a decimal numeral, with a minus sign when negative.\<close>

function decimal :: "nat \<Rightarrow> string" where
  "decimal n =
     (if n < 10 then [''0123456789'' ! n]
      else decimal (n div 10) @ [''0123456789'' ! (n mod 10)])"
  by pat_completeness auto
termination
  by (relation "measure id") auto

declare decimal.simps [simp del]

definition fmt_d :: "int \<Rightarrow> string" where
  "fmt_d i = (if i < 0 then CHR ''-'' # decimal (nat (- i)) else decimal (nat i))"

text \<open>Signed 64-bit wrap-around, for \<open>time.Duration\<close> arithmetic.\<close>

definition int64 :: "int \<Rightarrow> int" where
  "int64 x = (x + 2 ^ 63) mod 2 ^ 64 - 2 ^ 63"

definition Second :: int where
  "Second = 1000000000"

section \<open>The proxy-aware HTTP client (httpclient/client.go)\<close>

text \<open>
  \<open>proxy.Auth\<close> and the dialer that \<open>proxy.SOCKS5\<close> of golang.org/x/net returns. The
  library is not part of the repository: \<open>NewHTTPClient\<close> takes \<open>proxy.SOCKS5\<close> as its
  first argument \<open>socks5\<close>, a function of the network, the address and the optional
  credentials that yields an error message (\<open>Inl\<close>) or a dialer (\<open>Inr\<close>). The forwarding
  dialer is always \<open>proxy.Direct\<close> and is left out.
\<close>

record Auth =
  User :: string
  AuthPassword :: string

datatype Dialer = SOCKS5Dialer string string "Auth option"

type_synonym socks5 = "string \<Rightarrow> string \<Rightarrow> Auth option \<Rightarrow> string + Dialer"

text \<open>
  \<open>http.Transport\<close>: the zero value dials directly; the proxied one dials through the
  SOCKS dialer. \<open>http.Client\<close> holds the transport and the timeout in nanoseconds.
\<close>

datatype Transport = DirectTransport | DialContext Dialer

record http_Client =
  Transport :: Transport
  ClientTimeout :: int

text \<open>
  \<open>HTTPClient\<close>: \<open>NewHTTPClient\<close> fills only \<open>client\<close>; \<open>proxy\<close> and \<open>headers\<close> keep
  their zero values (the zero proxy, the nil map).
\<close>

record HTTPClient =
  client :: http_Client
  proxy :: Proxy
  headers :: "(string \<times> string) list"

definition zero_Proxy :: Proxy where
  "zero_Proxy = \<lparr>Ip = [], Port = 0, Username = [], Password = [], SocksType = 0, Timeout = 0\<rparr>"

definition unsupported_proxy_error :: string where
  "unsupported_proxy_error = ''SOCKS4 proxy is not supported in this implementation''"

definition invalid_socks_type_error :: "int \<Rightarrow> string" where
  "invalid_socks_type_error t = ''invalid SOCKS type: '' @ fmt_d t"

definition dialer_error :: "string \<Rightarrow> string" where
  "dialer_error err = ''failed to create SOCKS dialer: '' @ err"

text \<open>
  \<open>NewHTTPClient\<close>. The proxied branch is entered only when the address is non-empty
  and the port is positive; inside it the SOCKS type is tested for 5, then for 4, and
  everything else is the invalid type, each failure returning at once. Every other
  configuration takes the direct transport, whatever its SOCKS type. The timeout and
  the client are then built the same way for both transports.
\<close>

definition NewHTTPClient :: "socks5 \<Rightarrow> Proxy \<Rightarrow> string + HTTPClient" where
  "NewHTTPClient socks5 proxyConfig =
     (case
        (if Ip proxyConfig \<noteq> [] \<and> Port proxyConfig > 0 then
           (let proxyAddress = Ip proxyConfig @ '':'' @ fmt_d (Port proxyConfig) in
            if SocksType proxyConfig = 5 then
              (case (if Username proxyConfig \<noteq> [] \<and> Password proxyConfig \<noteq> []
                     then socks5 ''tcp'' proxyAddress
                            (Some \<lparr>User = Username proxyConfig,
                                    AuthPassword = Password proxyConfig\<rparr>)
                     else socks5 ''tcp'' proxyAddress None) of
                 Inl err \<Rightarrow> Inl (dialer_error err)
               | Inr dialer \<Rightarrow> Inr (DialContext dialer))
            else if SocksType proxyConfig = 4 then Inl unsupported_proxy_error
            else Inl (invalid_socks_type_error (SocksType proxyConfig)))
         else Inr DirectTransport) of
        Inl err \<Rightarrow> Inl err
      | Inr transport \<Rightarrow>
          (let timeout = (if Timeout proxyConfig > 0
                          then int64 (Timeout proxyConfig * Second)
                          else 10 * Second)
           in Inr \<lparr>client = \<lparr>Transport = transport, ClientTimeout = timeout\<rparr>,
                    proxy = zero_Proxy, headers = []\<rparr>))"

text \<open>The \<open>proxy.SOCKS5\<close> of golang.org/x/net: it records its arguments and never fails.\<close>

definition x_net_SOCKS5 :: socks5 where
  "x_net_SOCKS5 network address auth = Inr (SOCKS5Dialer network address auth)"

section \<open>The world outside the program\<close>

text \<open>
  A request as \<open>http.NewRequest\<close> builds it and the header loop completes it, and a
  response as \<open>http.Client.Do\<close> returns it. The body of a response is a stream; what
  the program does with it is one \<open>io.ReadAll\<close>, which gives the bytes it could read
  and the read error, if there was one. Closing the body frees a connection and has
  no result the program looks at: it is left out.
\<close>

record request =
  Method :: string
  URL :: string
  ReqBody :: bytes
  Header :: "(string \<times> string) list"

datatype body = ReadCloser bytes "string option"

record response =
  StatusCode :: int
  Body :: body

fun io_ReadAll :: "body \<Rightarrow> bytes \<times> string option" where
  "io_ReadAll (ReadCloser bs err) = (bs, err)"

text \<open>\<open>GameDataRequest\<close> (the body of the refresh call), field by field.\<close>

record GameDataRequest =
  req_Game :: string
  req_Telegram :: TelegramData
  req_APIKey :: string
  req_Proxy :: Proxy

text \<open>
  The library functions the program calls, as parameters. The payload of a task is a
  Go \<open>map[string]interface{}\<close>; it is the type parameter \<open>'p\<close>, and \<open>json.Marshal\<close> on
  it is \<open>json_Marshal\<close> (an error message or the bytes). \<open>http_NewRequest method url\<close>
  is the error of \<open>http.NewRequest\<close>, if any (a malformed method or URL).
  \<open>http_Do c history req\<close> is what \<open>http.Client.Do\<close> answers to \<open>req\<close> on client \<open>c\<close>
  after the requests \<open>history\<close>: a transport error or a response.
\<close>

record 'p env =
  json_Marshal :: "'p \<Rightarrow> string + bytes"
  json_Marshal_request :: "GameDataRequest \<Rightarrow> string + bytes"
  http_NewRequest :: "string \<Rightarrow> string \<Rightarrow> string option"
  http_Do :: "http_Client \<Rightarrow> request list \<Rightarrow> request \<Rightarrow> string + response"

text \<open>
  What the program prints on standard output: the two lines of \<open>OneTimeTask.Run\<close> and
  the two of \<open>RecurrentTask.Run\<close>, with the values their format strings print (the
  task's name, the account's Telegram id, and the payload or the response).
\<close>

datatype 'p line =
    RunningOneTime string string 'p
  | ExecutedOneTime string string bytes
  | RunningRecurrent string string 'p
  | ExecutedRecurrent string string bytes

text \<open>
  The state the program changes: the requests handed to the network so far, the
  lines printed, and the messages given to the loggers (zap and \<open>log.Printf\<close>). The
  zap logger is taken as initialised.
\<close>

record 'p world =
  sent :: "request list"
  stdout :: "'p line list"
  logged :: "string list"

section \<open>Requests (httpclient/client.go)\<close>

text \<open>
  \<open>DoRequest\<close>: build the request, set the client's headers on it, execute it. A
  transport error is returned as it is. A status below 200 or from 300 on is turned
  into an error whose message is the body as read, the read error being dropped.
\<close>

definition DoRequest ::
  "'p env \<Rightarrow> HTTPClient \<Rightarrow> string \<Rightarrow> string \<Rightarrow> bytes \<Rightarrow> 'p world \<Rightarrow> (string + response) \<times> 'p world"
where
  "DoRequest E httpClient method url body w =
     (case http_NewRequest E method url of
        Some err \<Rightarrow> (Inl err, w)
      | None \<Rightarrow>
          (let req = \<lparr>Method = method, URL = url, ReqBody = body,
                      Header = fold (\<lambda>(key, val) h. AList.update key val h)
                                 (headers httpClient) []\<rparr>;
               w1 = w\<lparr>sent := sent w @ [req]\<rparr>
           in case http_Do E (client httpClient) (sent w) req of
                Inl err \<Rightarrow> (Inl err, w1)
              | Inr resp \<Rightarrow>
                  if StatusCode resp < 200 \<or> StatusCode resp \<ge> 300 then
                    (let (responseBody, _) = io_ReadAll (Body resp)
                     in (Inl responseBody, w1))
                  else (Inr resp, w1)))"

definition Get :: "'p env \<Rightarrow> HTTPClient \<Rightarrow> string \<Rightarrow> 'p world \<Rightarrow> (string + response) \<times> 'p world" where
  "Get E httpClient url w = DoRequest E httpClient ''GET'' url [] w"

definition Post ::
  "'p env \<Rightarrow> HTTPClient \<Rightarrow> string \<Rightarrow> bytes \<Rightarrow> 'p world \<Rightarrow> (string + response) \<times> 'p world"
where
  "Post E httpClient url body w = DoRequest E httpClient ''POST'' url body w"

section \<open>Tasks (package tasks)\<close>

record 'p BaseTask =
  Name :: string
  Payload :: 'p

text \<open>
  The two implementations of the \<open>Task\<close> interface. The interval of a recurrent task
  is a \<open>time.Duration\<close>, in nanoseconds.
\<close>

datatype 'p Task =
    OneTimeTask "'p BaseTask"
  | RecurrentTask "'p BaseTask" int

section \<open>The handler (package handler)\<close>

text \<open>
  \<open>GameHandler\<close>. The mutex \<open>mu\<close> holds no data: \<open>AddTask\<close> takes it on entry and
  releases it on return, so in this sequential model the body of \<open>AddTask\<close> is one
  step and the mutex is free between calls. The field \<open>Proxy\<close> of the source is
  \<open>HandlerProxy\<close> here.
\<close>

record 'p GameHandler =
  GameName :: string
  BaseURL :: string
  HandlerProxy :: Proxy
  APIKey :: string
  Accounts :: "Account list"
  Tasks :: "'p Task list"
  HttpClient :: HTTPClient

text \<open>\<open>GameHandler.Post\<close>: the client's \<open>Post\<close>, then the whole body, read.\<close>

definition handler_Post ::
  "'p env \<Rightarrow> 'p GameHandler \<Rightarrow> string \<Rightarrow> bytes \<Rightarrow> 'p world \<Rightarrow> (string + bytes) \<times> 'p world"
where
  "handler_Post E handler url payload w =
     (case Post E (HttpClient handler) url payload w of
        (Inl err, w1) \<Rightarrow> (Inl err, w1)
      | (Inr resp, w1) \<Rightarrow>
          (case io_ReadAll (Body resp) of
             (body, Some err) \<Rightarrow> (Inl err, w1)
           | (body, None) \<Rightarrow> (Inr body, w1)))"

definition GetBaseURL :: "'p GameHandler \<Rightarrow> string" where
  "GetBaseURL handler = BaseURL handler"

definition GetAccounts :: "'p GameHandler \<Rightarrow> Account list" where
  "GetAccounts handler = Accounts handler"

definition SetBaseURL :: "'p GameHandler \<Rightarrow> string \<Rightarrow> 'p GameHandler" where
  "SetBaseURL handler url = handler\<lparr>BaseURL := url\<rparr>"

definition AddTask :: "'p GameHandler \<Rightarrow> 'p Task \<Rightarrow> 'p GameHandler" where
  "AddTask handler task = handler\<lparr>Tasks := Tasks handler @ [task]\<rparr>"

section \<open>Running a task (tasks.OneTimeTask.Run, tasks.RecurrentTask.Run)\<close>

definition print :: "'p line \<Rightarrow> 'p world \<Rightarrow> 'p world" where
  "print l w = w\<lparr>stdout := stdout w @ [l]\<rparr>"

definition quoted :: "string \<Rightarrow> string" where
  "quoted s = [CHR 0x27] @ s @ [CHR 0x27]"

text \<open>
  Both \<open>Run\<close> methods print that they run, serialise the payload, post it to the
  handler's base URL, and print the response. The result is Go's \<open>error\<close>: \<open>None\<close> is
  \<open>nil\<close>, \<open>Some\<close> carries the message. The body that \<open>handler.Post\<close> returns is printed
  and never examined.
\<close>

definition OneTimeTask_Run ::
  "'p env \<Rightarrow> 'p BaseTask \<Rightarrow> Account \<Rightarrow> 'p GameHandler \<Rightarrow> 'p world \<Rightarrow> string option \<times> 'p world"
where
  "OneTimeTask_Run E task account handler w =
     (let w0 = print (RunningOneTime (Name task) (TelegramId (Telegram account)) (Payload task)) w;
          payload = Payload task
      in case json_Marshal E payload of
           Inl err \<Rightarrow>
             (Some (''failed to marshal payload for one-time task '' @ quoted (Name task)
                    @ '': '' @ err), w0)
         | Inr payloadBytes \<Rightarrow>
             (case handler_Post E handler (GetBaseURL handler) payloadBytes w0 of
                (Inl err, w1) \<Rightarrow>
                  (Some (''failed to execute one-time task '' @ quoted (Name task)
                         @ '' for account '' @ TelegramId (Telegram account) @ '': '' @ err), w1)
              | (Inr response, w1) \<Rightarrow>
                  (None, print (ExecutedOneTime (Name task) (TelegramId (Telegram account))
                                  response) w1)))"

definition RecurrentTask_Run ::
  "'p env \<Rightarrow> 'p BaseTask \<Rightarrow> Account \<Rightarrow> 'p GameHandler \<Rightarrow> 'p world \<Rightarrow> string option \<times> 'p world"
where
  "RecurrentTask_Run E task account handler w =
     (let w0 = print (RunningRecurrent (Name task) (TelegramId (Telegram account)) (Payload task)) w;
          payload = Payload task
      in case json_Marshal E payload of
           Inl err \<Rightarrow>
             (Some (''failed to marshal payload for recurrent task '' @ quoted (Name task)
                    @ '': '' @ err), w0)
         | Inr payloadBytes \<Rightarrow>
             (case handler_Post E handler (GetBaseURL handler) payloadBytes w0 of
                (Inl err, w1) \<Rightarrow>
                  (Some (''failed to execute recurrent task '' @ quoted (Name task)
                         @ '' for account '' @ TelegramId (Telegram account) @ '': '' @ err), w1)
              | (Inr response, w1) \<Rightarrow>
                  (None, print (ExecutedRecurrent (Name task) (TelegramId (Telegram account))
                                  response) w1)))"

text \<open>The interface call \<open>task.Run(account, handler)\<close>, dispatched on the task's type.\<close>

fun Run :: "'p env \<Rightarrow> 'p Task \<Rightarrow> Account \<Rightarrow> 'p GameHandler \<Rightarrow> 'p world \<Rightarrow> string option \<times> 'p world" where
  "Run E (OneTimeTask task) account handler w = OneTimeTask_Run E task account handler w"
| "Run E (RecurrentTask task interval) account handler w = RecurrentTask_Run E task account handler w"

section \<open>Refresh and retry (package handler)\<close>

text \<open>
  \<open>refreshGameData\<close> returns Go's pair \<open>([]byte, error)\<close>, kept here as a pair since its
  caller binds the two results by position: the first component is the body (\<open>None\<close> is
  the nil slice), the second the error (\<open>None\<close> is nil). Every failure returns
  \<open>(nil, err)\<close>; success returns the body read, which \<open>io.ReadAll\<close> allocates, so it is
  not nil even when empty.
\<close>

definition refreshGameData ::
  "'p env \<Rightarrow> HTTPClient \<Rightarrow> string \<Rightarrow> string \<Rightarrow> TelegramData \<Rightarrow> Proxy \<Rightarrow> 'p world
     \<Rightarrow> (bytes option \<times> string option) \<times> 'p world"
where
  "refreshGameData E httpClient game apiKey telegram proxyConfig w =
     (let nexusApiBaseURL = ''http://34.95.182.203:1337/api'';
          url = nexusApiBaseURL @ ''/telegram/game-data'';
          requestBody = \<lparr>req_Game = game, req_Telegram = telegram, req_APIKey = apiKey,
                          req_Proxy = proxyConfig\<rparr>
      in case json_Marshal_request E requestBody of
           Inl err \<Rightarrow>
             ((None, Some err), w\<lparr>logged := logged w @ [''Failed to marshal request body'']\<rparr>)
         | Inr jsonData \<Rightarrow>
             (case Post E httpClient url jsonData w of
                (Inl err, w1) \<Rightarrow> ((None, Some err), w1)
              | (Inr resp, w1) \<Rightarrow>
                  (case io_ReadAll (Body resp) of
                     (body, Some err) \<Rightarrow> ((None, Some err), w1)
                   | (body, None) \<Rightarrow> ((Some body, None), w1))))"

text \<open>
  \<open>runTaskWithRetry\<close>. The source binds the results of \<open>refreshGameData\<close> as
  \<open>refreshErr, _ := refreshGameData(...)\<close>: \<open>refreshErr\<close> is the first result, the body,
  and the error is discarded. The test \<open>refreshErr != nil\<close> is therefore a test on the
  body. Every path returns nil.
\<close>

definition runTaskWithRetry ::
  "'p env \<Rightarrow> 'p GameHandler \<Rightarrow> Account \<Rightarrow> 'p Task \<Rightarrow> 'p world \<Rightarrow> string option \<times> 'p world"
where
  "runTaskWithRetry E handler account task w =
     (case Run E task account handler w of
        (Some err, w1) \<Rightarrow>
          (case refreshGameData E (HttpClient handler) (GameName handler) (APIKey handler)
                  (Telegram account) (HandlerProxy handler) w1 of
             ((refreshErr, _), w2) \<Rightarrow>
               if refreshErr \<noteq> None then (None, w2)
               else (case Run E task account handler w2 of
                       (Some retryErr, w3) \<Rightarrow> (None, w3)
                     | (None, w3) \<Rightarrow> (None, w3)))
      | (None, w1) \<Rightarrow> (None, w1))"

section \<open>Running all tasks (GameHandler.RunTasks)\<close>

text \<open>
  The loop of a recurrent task, \<open>for { select { case <-ticker.C: ... } }\<close>, has no exit.
  \<open>ticker_loop n\<close> is the world after the first \<open>n\<close> ticks of the ticker: each tick
  runs the retry sequence once and logs its error, if it returns one.
\<close>

fun ticker_loop ::
  "nat \<Rightarrow> 'p env \<Rightarrow> 'p GameHandler \<Rightarrow> Account \<Rightarrow> 'p Task \<Rightarrow> 'p world \<Rightarrow> 'p world"
where
  "ticker_loop 0 E handler account task w = w"
| "ticker_loop (Suc n) E handler account task w =
     ticker_loop n E handler account task
       (case runTaskWithRetry E handler account task w of
          (Some err, w1) \<Rightarrow>
            w1\<lparr>logged := logged w1 @ [''Error executing recurrent task for account ''
                                       @ TelegramId (Telegram account) @ '': '' @ err]\<rparr>
        | (None, w1) \<Rightarrow> w1)"

text \<open>
  Where the goroutine of one account stands once its tickers have ticked \<open>n\<close> times:
  it has returned (\<open>Returned\<close>, and the deferred \<open>wg.Done\<close> has run), it is inside the
  loop of a recurrent task (\<open>InTickerLoop\<close>), or \<open>time.NewTicker\<close> has panicked on an
  interval that is not positive.
\<close>

datatype 'w progress = Returned 'w | InTickerLoop 'w | Panicked 'w

text \<open>
  The body of the goroutine: the tasks in list order. A one-time task runs the retry
  sequence and the loop goes on to the next task. A recurrent task is run by a
  function literal called on the spot, with no \<open>go\<close>: the goroutine enters the ticker
  loop itself, so the rest of the list is reached only if that loop returns, and
  it has no exit.
\<close>

fun account_goroutine ::
  "nat \<Rightarrow> 'p env \<Rightarrow> 'p GameHandler \<Rightarrow> Account \<Rightarrow> 'p Task list \<Rightarrow> 'p world \<Rightarrow> 'p world progress"
where
  "account_goroutine n E handler account [] w = Returned w"
| "account_goroutine n E handler account (OneTimeTask t # tasks) w =
     account_goroutine n E handler account tasks
       (case runTaskWithRetry E handler account (OneTimeTask t) w of
          (Some err, w1) \<Rightarrow>
            w1\<lparr>logged := logged w1 @ [''Error executing one-time task for account ''
                                       @ TelegramId (Telegram account) @ '': '' @ err]\<rparr>
        | (None, w1) \<Rightarrow> w1)"
| "account_goroutine n E handler account (RecurrentTask t interval # tasks) w =
     (if interval \<le> 0 then Panicked w
      else InTickerLoop (ticker_loop n E handler account (RecurrentTask t interval) w))"

text \<open>
  \<open>RunTasks\<close> starts one goroutine per account and waits for all of them
  (\<open>wg.Wait\<close>). The goroutines are taken here one after the other, in the order they
  are started, each observed for \<open>n\<close> ticks: one of the schedules the program can
  follow. \<open>RunTasks\<close> has returned when every goroutine has.
\<close>

fun goroutines ::
  "nat \<Rightarrow> 'p env \<Rightarrow> 'p GameHandler \<Rightarrow> Account list \<Rightarrow> 'p world \<Rightarrow> 'p world progress list"
where
  "goroutines n E handler [] w = []"
| "goroutines n E handler (account # accounts) w =
     (let p = account_goroutine n E handler account (Tasks handler) w
      in p # goroutines n E handler accounts
               (case p of Returned w1 \<Rightarrow> w1 | InTickerLoop w1 \<Rightarrow> w1 | Panicked w1 \<Rightarrow> w1))"

fun has_returned :: "'w progress \<Rightarrow> bool" where
  "has_returned (Returned w) = True"
| "has_returned (InTickerLoop w) = False"
| "has_returned (Panicked w) = False"

definition RunTasks_returns :: "nat \<Rightarrow> 'p env \<Rightarrow> 'p GameHandler \<Rightarrow> 'p world \<Rightarrow> bool" where
  "RunTasks_returns n E handler w =
     list_all has_returned (goroutines n E handler (Accounts handler) w)"

section \<open>Observations on the output\<close>

text \<open>
  Each call of a \<open>Run\<close> method prints its first line before anything else, so the
  number of those lines on standard output is the number of calls of \<open>Run\<close>;
  \<open>one_time_run_count\<close> counts the calls of \<open>OneTimeTask.Run\<close> only.
\<close>

fun is_Running :: "'p line \<Rightarrow> bool" where
  "is_Running (RunningOneTime name account payload) = True"
| "is_Running (RunningRecurrent name account payload) = True"
| "is_Running (ExecutedOneTime name account response) = False"
| "is_Running (ExecutedRecurrent name account response) = False"

definition run_count :: "'p world \<Rightarrow> nat" where
  "run_count w = length (filter is_Running (stdout w))"

fun is_RunningOneTime :: "'p line \<Rightarrow> bool" where
  "is_RunningOneTime (RunningOneTime name account payload) = True"
| "is_RunningOneTime (RunningRecurrent name account payload) = False"
| "is_RunningOneTime (ExecutedOneTime name account response) = False"
| "is_RunningOneTime (ExecutedRecurrent name account response) = False"

definition one_time_run_count :: "'p world \<Rightarrow> nat" where
  "one_time_run_count w = length (filter is_RunningOneTime (stdout w))"

section \<open>A sample environment\<close>

text \<open>
  Concrete values to run the model on. The network \<open>scripted answers\<close> gives the
  \<open>k\<close>-th request the \<open>k\<close>-th answer of the list and refuses the connection once the
  list is used up. In \<open>test_env\<close> the payload of a task is its own JSON text, every
  request can be built, and the refresh request serialises to \<open>{}\<close>. \<open>direct_client\<close> is
  the client \<open>NewHTTPClient\<close> builds for the zero proxy.
\<close>

definition scripted ::
  "(string + response) list \<Rightarrow> http_Client \<Rightarrow> request list \<Rightarrow> request \<Rightarrow> string + response"
where
  "scripted answers c history req =
     (if length history < length answers then answers ! length history
      else Inl ''connection refused'')"

definition answer :: "int \<Rightarrow> bytes \<Rightarrow> string + response" where
  "answer code text = Inr \<lparr>StatusCode = code, Body = ReadCloser text None\<rparr>"

definition test_env :: "(string + response) list \<Rightarrow> bytes env" where
  "test_env answers =
     \<lparr>json_Marshal = Inr, json_Marshal_request = (\<lambda>r. Inr ''{}''),
      http_NewRequest = (\<lambda>method url. None), http_Do = scripted answers\<rparr>"

definition test_account :: Account where
  "test_account =
     \<lparr>GameData = ''user=1'',
      Telegram = \<lparr>TdataStringSession = ''session'', AppId = ''1'', AppHash = ''hash'',
                   TelegramId = ''42''\<rparr>\<rparr>"

definition direct_client :: HTTPClient where
  "direct_client =
     \<lparr>client = \<lparr>Transport = DirectTransport, ClientTimeout = 10 * Second\<rparr>,
      proxy = zero_Proxy, headers = []\<rparr>"

definition test_handler :: "bytes Task list \<Rightarrow> bytes GameHandler" where
  "test_handler tasks =
     \<lparr>GameName = ''game'', BaseURL = ''http://game.example/api'', HandlerProxy = zero_Proxy,
      APIKey = ''key'', Accounts = [test_account], Tasks = tasks, HttpClient = direct_client\<rparr>"

definition empty_world :: "bytes world" where
  "empty_world = \<lparr>sent = [], stdout = [], logged = []\<rparr>"

definition claim_task :: "bytes BaseTask" where
  "claim_task = \<lparr>Name = ''claim'', Payload = ''{}''\<rparr>"

definition heartbeat_task :: "bytes BaseTask" where
  "heartbeat_task = \<lparr>Name = ''heartbeat'', Payload = ''{}''\<rparr>"

section \<open>Proxy construction: theorems\<close>

lemma fmt_d_1080: "fmt_d 1080 = ''1080''"
  by (simp add: fmt_d_def decimal.simps)

lemma fmt_d_7: "fmt_d 7 = ''7''"
  by (simp add: fmt_d_def decimal.simps)

text \<open>
  C7: a configuration with an empty \<open>Ip\<close> always yields a client, and that client has
  the direct transport, whatever the other fields and whatever \<open>proxy.SOCKS5\<close> would
  answer. The instance below is the configuration with the empty \<open>Ip\<close> and port 0.
\<close>

theorem NewHTTPClient_no_address:
  "Ip proxyConfig = [] \<Longrightarrow>
     \<exists>c. NewHTTPClient socks5 proxyConfig = Inr c \<and> Transport (client c) = DirectTransport"
  by (simp add: NewHTTPClient_def)

theorem NewHTTPClient_no_address_witness:
  "Ip zero_Proxy = [] \<and> Port zero_Proxy = 0 \<and>
   (\<exists>c. NewHTTPClient x_net_SOCKS5 zero_Proxy = Inr c \<and> Transport (client c) = DirectTransport)"
  using NewHTTPClient_no_address [of zero_Proxy x_net_SOCKS5]
  by (simp add: zero_Proxy_def)

text \<open>
  C9: a configuration with a non-empty \<open>Ip\<close> and a port that is zero or negative
  yields a client with the direct transport, whatever its SOCKS type; and
  \<open>NewHTTPClient\<close> fails (with the unsupported-proxy error, the invalid-type error or
  any other) only for a configuration with a non-empty \<open>Ip\<close> and a positive port.
\<close>

theorem NewHTTPClient_port_guard:
  "(Ip p \<noteq> [] \<and> Port p \<le> 0 \<longrightarrow>
      (\<exists>c. NewHTTPClient socks5 p = Inr c \<and> Transport (client c) = DirectTransport)) \<and>
   (\<forall>err. NewHTTPClient socks5 p = Inl err \<longrightarrow> Ip p \<noteq> [] \<and> 0 < Port p)"
  by (auto simp: NewHTTPClient_def split: if_splits sum.splits)

theorem NewHTTPClient_port_guard_witness:
  "(\<exists>c. NewHTTPClient x_net_SOCKS5
          \<lparr>Ip = ''10.0.0.1'', Port = 0, Username = [], Password = [], SocksType = 4, Timeout = 0\<rparr> = Inr c
        \<and> Transport (client c) = DirectTransport) \<and>
   (\<exists>c. NewHTTPClient x_net_SOCKS5
          \<lparr>Ip = ''10.0.0.1'', Port = -1, Username = [], Password = [], SocksType = 7, Timeout = 0\<rparr> = Inr c
        \<and> Transport (client c) = DirectTransport) \<and>
   NewHTTPClient x_net_SOCKS5
      \<lparr>Ip = ''10.0.0.1'', Port = 1080, Username = [], Password = [], SocksType = 4, Timeout = 0\<rparr>
     = Inl unsupported_proxy_error \<and>
   0 < Port \<lparr>Ip = ''10.0.0.1'', Port = 1080, Username = [], Password = [], SocksType = 4, Timeout = 0\<rparr>"
  using
    NewHTTPClient_port_guard [of "\<lparr>Ip = ''10.0.0.1'', Port = 0, Username = [], Password = [], SocksType = 4, Timeout = 0\<rparr>" x_net_SOCKS5]
    NewHTTPClient_port_guard [of "\<lparr>Ip = ''10.0.0.1'', Port = -1, Username = [], Password = [], SocksType = 7, Timeout = 0\<rparr>" x_net_SOCKS5]
    NewHTTPClient_port_guard [of "\<lparr>Ip = ''10.0.0.1'', Port = 1080, Username = [], Password = [], SocksType = 4, Timeout = 0\<rparr>" x_net_SOCKS5]
  by (simp add: NewHTTPClient_def)

text \<open>
  C5, as stated, for every configuration with a non-empty \<open>Ip\<close>: it fails for the
  address 10.0.0.1 with port 0 and SOCKS type 4, where \<open>NewHTTPClient\<close> returns a
  direct client and not the unsupported-proxy error.
\<close>

theorem NewHTTPClient_address_without_port_counterexample:
  "Ip \<lparr>Ip = ''10.0.0.1'', Port = 0, Username = [], Password = [], SocksType = 4, Timeout = 0\<rparr> \<noteq> [] \<and>
   SocksType \<lparr>Ip = ''10.0.0.1'', Port = 0, Username = [], Password = [], SocksType = 4, Timeout = 0\<rparr> = 4 \<and>
   NewHTTPClient x_net_SOCKS5
      \<lparr>Ip = ''10.0.0.1'', Port = 0, Username = [], Password = [], SocksType = 4, Timeout = 0\<rparr>
     = Inr \<lparr>client = \<lparr>Transport = DirectTransport, ClientTimeout = 10000000000\<rparr>,
             proxy = zero_Proxy, headers = []\<rparr> \<and>
   NewHTTPClient x_net_SOCKS5
      \<lparr>Ip = ''10.0.0.1'', Port = 0, Username = [], Password = [], SocksType = 4, Timeout = 0\<rparr>
     \<noteq> Inl unsupported_proxy_error"
  by (simp add: NewHTTPClient_def Second_def)

text \<open>
  C5, amended: for every configuration with a non-empty \<open>Ip\<close> and a positive port,
  SOCKS type 4 fails with the unsupported-proxy error, a type other than 4 and 5 fails
  with the invalid-type error, and type 5 yields a client that dials through the
  dialer \<open>proxy.SOCKS5\<close> returns, when it returns one, with the credentials if both the
  user name and the password are non-empty and without them otherwise.
\<close>

theorem NewHTTPClient_socks_versions:
  "Ip p \<noteq> [] \<Longrightarrow> 0 < Port p \<Longrightarrow>
     (SocksType p = 4 \<longrightarrow> NewHTTPClient socks5 p = Inl unsupported_proxy_error) \<and>
     (SocksType p \<noteq> 4 \<and> SocksType p \<noteq> 5 \<longrightarrow>
        NewHTTPClient socks5 p = Inl (invalid_socks_type_error (SocksType p))) \<and>
     (SocksType p = 5 \<longrightarrow>
        (\<forall>d. socks5 ''tcp'' (Ip p @ '':'' @ fmt_d (Port p))
                (if Username p \<noteq> [] \<and> Password p \<noteq> []
                 then Some \<lparr>User = Username p, AuthPassword = Password p\<rparr> else None) = Inr d \<longrightarrow>
           (\<exists>c. NewHTTPClient socks5 p = Inr c \<and> Transport (client c) = DialContext d)))"
  by (auto simp: NewHTTPClient_def split: if_splits sum.splits)

theorem NewHTTPClient_socks_versions_witness:
  "NewHTTPClient x_net_SOCKS5
      \<lparr>Ip = ''10.0.0.1'', Port = 1080, Username = [], Password = [], SocksType = 4, Timeout = 0\<rparr>
     = Inl ''SOCKS4 proxy is not supported in this implementation'' \<and>
   NewHTTPClient x_net_SOCKS5
      \<lparr>Ip = ''10.0.0.1'', Port = 1080, Username = [], Password = [], SocksType = 7, Timeout = 0\<rparr>
     = Inl ''invalid SOCKS type: 7'' \<and>
   (\<exists>c. NewHTTPClient x_net_SOCKS5
          \<lparr>Ip = ''10.0.0.1'', Port = 1080, Username = [], Password = [], SocksType = 5, Timeout = 0\<rparr> = Inr c
        \<and> Transport (client c) = DialContext (SOCKS5Dialer ''tcp'' ''10.0.0.1:1080'' None)) \<and>
   (\<exists>c. NewHTTPClient x_net_SOCKS5
          \<lparr>Ip = ''10.0.0.1'', Port = 1080, Username = ''u'', Password = ''pw'', SocksType = 5, Timeout = 0\<rparr> = Inr c
        \<and> Transport (client c) = DialContext (SOCKS5Dialer ''tcp'' ''10.0.0.1:1080''
               (Some \<lparr>User = ''u'', AuthPassword = ''pw''\<rparr>)))"
  using
    NewHTTPClient_socks_versions [of "\<lparr>Ip = ''10.0.0.1'', Port = 1080, Username = [], Password = [], SocksType = 4, Timeout = 0\<rparr>" x_net_SOCKS5]
    NewHTTPClient_socks_versions [of "\<lparr>Ip = ''10.0.0.1'', Port = 1080, Username = [], Password = [], SocksType = 7, Timeout = 0\<rparr>" x_net_SOCKS5]
    NewHTTPClient_socks_versions [of "\<lparr>Ip = ''10.0.0.1'', Port = 1080, Username = [], Password = [], SocksType = 5, Timeout = 0\<rparr>" x_net_SOCKS5]
    NewHTTPClient_socks_versions [of "\<lparr>Ip = ''10.0.0.1'', Port = 1080, Username = ''u'', Password = ''pw'', SocksType = 5, Timeout = 0\<rparr>" x_net_SOCKS5]
  by (simp add: x_net_SOCKS5_def unsupported_proxy_error_def invalid_socks_type_error_def fmt_d_1080 fmt_d_7)

section \<open>Requests: theorems\<close>

text \<open>
  C4: whenever the request can be built and \<open>http.Client.Do\<close> answers it with a
  response, \<open>Post\<close> and \<open>Get\<close> return that response, and no error, if its status is at
  least 200 and below 300; otherwise they return an error whose message is the body
  of the response, byte for byte, whatever the status code is.
\<close>

theorem Post_Get_status:
  "(http_NewRequest E ''POST'' url = None \<and>
    http_Do E (client c) (sent w)
      \<lparr>Method = ''POST'', URL = url, ReqBody = body,
        Header = fold (\<lambda>(key, val) h. AList.update key val h) (headers c) []\<rparr>
      = Inr \<lparr>StatusCode = code, Body = ReadCloser content rerr\<rparr> \<longrightarrow>
      fst (Post E c url body w) =
        (if 200 \<le> code \<and> code < 300 then Inr \<lparr>StatusCode = code, Body = ReadCloser content rerr\<rparr>
         else Inl content)) \<and>
   (http_NewRequest E ''GET'' url = None \<and>
    http_Do E (client c) (sent w)
      \<lparr>Method = ''GET'', URL = url, ReqBody = [],
        Header = fold (\<lambda>(key, val) h. AList.update key val h) (headers c) []\<rparr>
      = Inr \<lparr>StatusCode = code, Body = ReadCloser content rerr\<rparr> \<longrightarrow>
      fst (Get E c url w) =
        (if 200 \<le> code \<and> code < 300 then Inr \<lparr>StatusCode = code, Body = ReadCloser content rerr\<rparr>
         else Inl content))"
  by (auto simp: Post_def Get_def DoRequest_def Let_def)

theorem Post_Get_status_witness:
  "fst (Post (test_env [answer 200 ''done'']) direct_client ''http://game.example/api'' ''{}''
          empty_world)
     = Inr \<lparr>StatusCode = 200, Body = ReadCloser ''done'' None\<rparr> \<and>
   fst (Post (test_env [answer 404 ''not found'']) direct_client ''http://game.example/api'' ''{}''
          empty_world)
     = Inl ''not found'' \<and>
   fst (Get (test_env [answer 299 ''fine'']) direct_client ''http://game.example/api'' empty_world)
     = Inr \<lparr>StatusCode = 299, Body = ReadCloser ''fine'' None\<rparr> \<and>
   fst (Get (test_env [answer 300 ''moved'']) direct_client ''http://game.example/api'' empty_world)
     = Inl ''moved''"
  using
    Post_Get_status [where E = "test_env [answer 200 ''done'']" and c = direct_client
      and url = "''http://game.example/api''" and body = "''{}''" and w = empty_world
      and code = 200 and content = "''done''" and rerr = None]
    Post_Get_status [where E = "test_env [answer 404 ''not found'']" and c = direct_client
      and url = "''http://game.example/api''" and body = "''{}''" and w = empty_world
      and code = 404 and content = "''not found''" and rerr = None]
    Post_Get_status [where E = "test_env [answer 299 ''fine'']" and c = direct_client
      and url = "''http://game.example/api''" and body = "''{}''" and w = empty_world
      and code = 299 and content = "''fine''" and rerr = None]
    Post_Get_status [where E = "test_env [answer 300 ''moved'']" and c = direct_client
      and url = "''http://game.example/api''" and body = "''{}''" and w = empty_world
      and code = 300 and content = "''moved''" and rerr = None]
  by (simp add: test_env_def scripted_def answer_def direct_client_def empty_world_def)

text \<open>
  What a request leaves unchanged: \<open>DoRequest\<close> and its callers never print, and the
  lines printed before a request do not change its result.
\<close>

lemma DoRequest_stdout: "stdout (snd (DoRequest E c m u b w)) = stdout w"
  by (simp add: DoRequest_def Let_def split: option.splits sum.splits prod.splits)

lemma DoRequest_stdout_update:
  "DoRequest E c m u b (w\<lparr>stdout := s\<rparr>) =
     (fst (DoRequest E c m u b w), (snd (DoRequest E c m u b w))\<lparr>stdout := s\<rparr>)"
  by (simp add: DoRequest_def Let_def split: option.splits sum.splits prod.splits)

lemma DoRequest_sent:
  "sent (snd (DoRequest E c m u b w)) =
     (case http_NewRequest E m u of
        Some err \<Rightarrow> sent w
      | None \<Rightarrow> sent w @ [\<lparr>Method = m, URL = u, ReqBody = b,
                            Header = fold (\<lambda>(key, val) h. AList.update key val h) (headers c) []\<rparr>])"
  by (simp add: DoRequest_def Let_def split: option.splits sum.splits prod.splits)

lemma handler_Post_stdout: "stdout (snd (handler_Post E h u b w)) = stdout w"
proof -
  obtain r w1 where d: "DoRequest E (HttpClient h) ''POST'' u b w = (r, w1)"
    by (cases "DoRequest E (HttpClient h) ''POST'' u b w")
  have "stdout w1 = stdout w"
    using DoRequest_stdout [of E "HttpClient h" "''POST''" u b w] d by simp
  then show ?thesis
    using d by (simp add: handler_Post_def Post_def split: sum.splits option.splits prod.splits)
qed

lemma handler_Post_stdout_update:
  "handler_Post E h u b (w\<lparr>stdout := s\<rparr>) =
     (fst (handler_Post E h u b w), (snd (handler_Post E h u b w))\<lparr>stdout := s\<rparr>)"
proof -
  obtain r w1 where d: "DoRequest E (HttpClient h) ''POST'' u b w = (r, w1)"
    by (cases "DoRequest E (HttpClient h) ''POST'' u b w")
  then have "DoRequest E (HttpClient h) ''POST'' u b (w\<lparr>stdout := s\<rparr>) = (r, w1\<lparr>stdout := s\<rparr>)"
    by (simp add: DoRequest_stdout_update)
  then show ?thesis
    using d by (simp add: handler_Post_def Post_def split: sum.splits option.splits prod.splits)
qed

lemma handler_Post_sent:
  "sent (snd (handler_Post E h u b w)) = sent (snd (DoRequest E (HttpClient h) ''POST'' u b w))"
  by (cases "DoRequest E (HttpClient h) ''POST'' u b w")
    (simp add: handler_Post_def Post_def split: sum.splits option.splits prod.splits)

lemma refreshGameData_stdout:
  "stdout (snd (refreshGameData E c g k t p w)) = stdout w"
proof (cases "json_Marshal_request E \<lparr>req_Game = g, req_Telegram = t, req_APIKey = k, req_Proxy = p\<rparr>")
  case (Inl err)
  then show ?thesis by (simp add: refreshGameData_def)
next
  case (Inr jsonData)
  obtain r w1 where d:
    "DoRequest E c ''POST'' ''http://34.95.182.203:1337/api/telegram/game-data'' jsonData w = (r, w1)"
    by (cases "DoRequest E c ''POST'' ''http://34.95.182.203:1337/api/telegram/game-data'' jsonData w")
  have "stdout w1 = stdout w"
    using DoRequest_stdout [of E c "''POST''" "''http://34.95.182.203:1337/api/telegram/game-data''" jsonData w] d
    by simp
  then show ?thesis
    using Inr d by (simp add: refreshGameData_def Post_def split: sum.splits option.splits prod.splits)
qed

lemma refreshGameData_results:
  "(\<exists>body. fst (refreshGameData E c g k t p w) = (Some body, None)) \<or>
   (\<exists>err. fst (refreshGameData E c g k t p w) = (None, Some err))"
  by (simp add: refreshGameData_def Let_def split: prod.splits sum.splits option.splits)

section \<open>Running a task: theorems\<close>

lemma OneTimeTask_Run_nil:
  "(fst (OneTimeTask_Run E t a h w) = None) =
     (\<exists>payloadBytes body. json_Marshal E (Payload t) = Inr payloadBytes \<and>
        fst (handler_Post E h (GetBaseURL h) payloadBytes w) = Inr body)"
  by (cases "json_Marshal E (Payload t)")
    (auto simp: OneTimeTask_Run_def print_def Let_def handler_Post_stdout_update
      split: prod.splits sum.splits)

lemma RecurrentTask_Run_nil:
  "(fst (RecurrentTask_Run E t a h w) = None) =
     (\<exists>payloadBytes body. json_Marshal E (Payload t) = Inr payloadBytes \<and>
        fst (handler_Post E h (GetBaseURL h) payloadBytes w) = Inr body)"
  by (cases "json_Marshal E (Payload t)")
    (auto simp: RecurrentTask_Run_def print_def Let_def handler_Post_stdout_update
      split: prod.splits sum.splits)

lemma OneTimeTask_Run_sent:
  "sent (snd (OneTimeTask_Run E t a h w)) =
     (case json_Marshal E (Payload t) of
        Inl err \<Rightarrow> sent w
      | Inr payloadBytes \<Rightarrow> sent (snd (DoRequest E (HttpClient h) ''POST'' (BaseURL h) payloadBytes w)))"
proof (cases "json_Marshal E (Payload t)")
  case (Inl err)
  then show ?thesis by (simp add: OneTimeTask_Run_def print_def)
next
  case (Inr pb)
  have "sent (snd (handler_Post E h (BaseURL h) pb
          (w\<lparr>stdout := stdout w @ [RunningOneTime (Name t) (TelegramId (Telegram a)) (Payload t)]\<rparr>)))
        = sent (snd (DoRequest E (HttpClient h) ''POST'' (BaseURL h) pb w))"
    by (simp add: handler_Post_stdout_update handler_Post_sent)
  then show ?thesis
    using Inr
    by (simp add: OneTimeTask_Run_def print_def GetBaseURL_def Let_def split: prod.splits sum.splits)
      (metis snd_conv)
qed

lemma RecurrentTask_Run_sent:
  "sent (snd (RecurrentTask_Run E t a h w)) =
     (case json_Marshal E (Payload t) of
        Inl err \<Rightarrow> sent w
      | Inr payloadBytes \<Rightarrow> sent (snd (DoRequest E (HttpClient h) ''POST'' (BaseURL h) payloadBytes w)))"
proof (cases "json_Marshal E (Payload t)")
  case (Inl err)
  then show ?thesis by (simp add: RecurrentTask_Run_def print_def)
next
  case (Inr pb)
  have "sent (snd (handler_Post E h (BaseURL h) pb
          (w\<lparr>stdout := stdout w @ [RunningRecurrent (Name t) (TelegramId (Telegram a)) (Payload t)]\<rparr>)))
        = sent (snd (DoRequest E (HttpClient h) ''POST'' (BaseURL h) pb w))"
    by (simp add: handler_Post_stdout_update handler_Post_sent)
  then show ?thesis
    using Inr
    by (simp add: RecurrentTask_Run_def print_def GetBaseURL_def Let_def split: prod.splits sum.splits)
      (metis snd_conv)
qed

text \<open>
  C6: \<open>OneTimeTask.Run\<close> and \<open>RecurrentTask.Run\<close> return nil exactly when the payload
  serialises and \<open>handler.Post\<close> to the handler's base URL returns a body, whatever
  that body is; so they return an error exactly when serialisation or the POST
  fails. When the payload serialises (and the request can be built) the one request
  they send is a POST to \<open>handler.GetBaseURL()\<close> whose body is the serialised payload;
  when it does not serialise, nothing is sent.
\<close>

theorem Run_posts_payload:
  "(fst (OneTimeTask_Run E t a h w) = None) =
     (\<exists>payloadBytes body. json_Marshal E (Payload t) = Inr payloadBytes \<and>
        fst (handler_Post E h (GetBaseURL h) payloadBytes w) = Inr body) \<and>
   (fst (RecurrentTask_Run E t a h w) = None) =
     (\<exists>payloadBytes body. json_Marshal E (Payload t) = Inr payloadBytes \<and>
        fst (handler_Post E h (GetBaseURL h) payloadBytes w) = Inr body) \<and>
   (\<forall>payloadBytes.
      json_Marshal E (Payload t) = Inr payloadBytes \<and>
      http_NewRequest E ''POST'' (GetBaseURL h) = None \<longrightarrow>
        sent (snd (OneTimeTask_Run E t a h w)) =
          sent w @ [\<lparr>Method = ''POST'', URL = GetBaseURL h, ReqBody = payloadBytes,
                      Header = fold (\<lambda>(key, val) hd. AList.update key val hd)
                                 (headers (HttpClient h)) []\<rparr>] \<and>
        sent (snd (RecurrentTask_Run E t a h w)) =
          sent w @ [\<lparr>Method = ''POST'', URL = GetBaseURL h, ReqBody = payloadBytes,
                      Header = fold (\<lambda>(key, val) hd. AList.update key val hd)
                                 (headers (HttpClient h)) []\<rparr>]) \<and>
   (\<forall>err. json_Marshal E (Payload t) = Inl err \<longrightarrow>
      sent (snd (OneTimeTask_Run E t a h w)) = sent w \<and>
      sent (snd (RecurrentTask_Run E t a h w)) = sent w)"
  by (simp add: OneTimeTask_Run_nil RecurrentTask_Run_nil OneTimeTask_Run_sent
      RecurrentTask_Run_sent DoRequest_sent GetBaseURL_def)

theorem Run_posts_payload_witness:
  "fst (OneTimeTask_Run (test_env [answer 200 ''error: banned'']) claim_task test_account
          (test_handler []) empty_world) = None \<and>
   sent (snd (OneTimeTask_Run (test_env [answer 200 ''error: banned'']) claim_task
                test_account (test_handler []) empty_world))
     = [\<lparr>Method = ''POST'', URL = ''http://game.example/api'', ReqBody = ''{}'', Header = []\<rparr>] \<and>
   fst (RecurrentTask_Run (test_env [answer 200 ''error: banned'']) heartbeat_task
          test_account (test_handler []) empty_world) = None \<and>
   fst (OneTimeTask_Run (test_env [answer 500 ''busy'']) claim_task test_account
          (test_handler []) empty_world) \<noteq> None \<and>
   fst (RecurrentTask_Run (test_env [Inl ''dial tcp: timeout'']) heartbeat_task test_account
          (test_handler []) empty_world) \<noteq> None \<and>
   fst (OneTimeTask_Run ((test_env [answer 200 ''ok''])\<lparr>json_Marshal := \<lambda>p. Inl ''json: unsupported value''\<rparr>)
          claim_task test_account (test_handler []) empty_world) \<noteq> None \<and>
   sent (snd (OneTimeTask_Run ((test_env [answer 200 ''ok''])\<lparr>json_Marshal := \<lambda>p. Inl ''json: unsupported value''\<rparr>)
          claim_task test_account (test_handler []) empty_world)) = []"
  using
    Run_posts_payload [of "test_env [answer 200 ''error: banned'']" claim_task
      test_account "test_handler []" empty_world]
    Run_posts_payload [of "test_env [answer 200 ''error: banned'']" heartbeat_task
      test_account "test_handler []" empty_world]
    Run_posts_payload [of "test_env [answer 500 ''busy'']" claim_task
      test_account "test_handler []" empty_world]
    Run_posts_payload [of "test_env [Inl ''dial tcp: timeout'']" heartbeat_task
      test_account "test_handler []" empty_world]
    Run_posts_payload [of "(test_env [answer 200 ''ok''])\<lparr>json_Marshal := \<lambda>p. Inl ''json: unsupported value''\<rparr>" claim_task
      test_account "test_handler []" empty_world]
  by (simp add: test_env_def scripted_def answer_def test_account_def direct_client_def
      test_handler_def empty_world_def claim_task_def heartbeat_task_def
      OneTimeTask_Run_def RecurrentTask_Run_def handler_Post_def Post_def DoRequest_def
      print_def GetBaseURL_def Let_def)

section \<open>Refresh and retry: theorems\<close>

text \<open>
  C10: \<open>refreshGameData\<close> sends at most one request, and that request is a POST to
  \<open>http://34.95.182.203:1337/api/telegram/game-data\<close> whose body is the serialised
  \<open>GameDataRequest\<close>: the target does not depend on any argument. The handler's base
  URL is not among the arguments \<open>runTaskWithRetry\<close> passes, so setting it changes
  nothing in the refresh call.
\<close>

theorem refreshGameData_target:
  "sent (snd (refreshGameData E c game apiKey telegram proxyConfig w)) =
     (case json_Marshal_request E
             \<lparr>req_Game = game, req_Telegram = telegram, req_APIKey = apiKey,
              req_Proxy = proxyConfig\<rparr> of
        Inl err \<Rightarrow> sent w
      | Inr jsonData \<Rightarrow>
          (case http_NewRequest E ''POST'' ''http://34.95.182.203:1337/api/telegram/game-data'' of
             Some err \<Rightarrow> sent w
           | None \<Rightarrow>
               sent w @ [\<lparr>Method = ''POST'',
                           URL = ''http://34.95.182.203:1337/api/telegram/game-data'',
                           ReqBody = jsonData,
                           Header = fold (\<lambda>(key, val) hd. AList.update key val hd)
                                      (headers c) []\<rparr>])) \<and>
   refreshGameData E (HttpClient (SetBaseURL h url)) (GameName (SetBaseURL h url))
       (APIKey (SetBaseURL h url)) telegram (HandlerProxy (SetBaseURL h url)) w =
     refreshGameData E (HttpClient h) (GameName h) (APIKey h) telegram (HandlerProxy h) w"
proof -
  have "sent (snd (refreshGameData E c game apiKey telegram proxyConfig w)) =
     (case json_Marshal_request E
             \<lparr>req_Game = game, req_Telegram = telegram, req_APIKey = apiKey,
              req_Proxy = proxyConfig\<rparr> of
        Inl err \<Rightarrow> sent w
      | Inr jsonData \<Rightarrow>
          sent (snd (DoRequest E c ''POST'' ''http://34.95.182.203:1337/api/telegram/game-data''
                       jsonData w)))"
  proof (cases "json_Marshal_request E
             \<lparr>req_Game = game, req_Telegram = telegram, req_APIKey = apiKey,
              req_Proxy = proxyConfig\<rparr>")
    case (Inl err)
    then show ?thesis by (simp add: refreshGameData_def)
  next
    case (Inr jsonData)
    then show ?thesis
      by (cases "DoRequest E c ''POST'' ''http://34.95.182.203:1337/api/telegram/game-data'' jsonData w")
        (simp add: refreshGameData_def Post_def split: sum.splits option.splits prod.splits)
  qed
  then show ?thesis
    by (simp add: DoRequest_sent SetBaseURL_def split: sum.splits)
qed

lemma runTaskWithRetry_nil: "fst (runTaskWithRetry E h a t w) = None"
  by (simp add: runTaskWithRetry_def split: prod.splits option.splits)

lemma retry_step:
  "(case runTaskWithRetry E h a t w of (Some err, w1) \<Rightarrow> f err w1 | (None, w1) \<Rightarrow> w1)
     = snd (runTaskWithRetry E h a t w)"
  using runTaskWithRetry_nil [of E h a t w] by (cases "runTaskWithRetry E h a t w") auto

text \<open>
  C3: \<open>runTaskWithRetry\<close> returns nil for every account, task, handler, environment
  and world, whichever of the first run, the refresh and the second run fail. The
  branches of \<open>RunTasks\<close> that log an error of \<open>runTaskWithRetry\<close> are therefore never
  taken: a step of the goroutine and a tick of the ticker loop leave exactly the world
  \<open>runTaskWithRetry\<close> leaves.
\<close>

theorem runTaskWithRetry_returns_nil:
  "fst (runTaskWithRetry E h a t w) = None \<and>
   account_goroutine n E h a (OneTimeTask b # tasks) w =
     account_goroutine n E h a tasks (snd (runTaskWithRetry E h a (OneTimeTask b) w)) \<and>
   ticker_loop (Suc n) E h a t w = ticker_loop n E h a t (snd (runTaskWithRetry E h a t w))"
  by (simp add: runTaskWithRetry_nil retry_step)

lemma OneTimeTask_Run_run_count:
  "run_count (snd (OneTimeTask_Run E t a h w)) = Suc (run_count w)"
  by (simp add: OneTimeTask_Run_def print_def run_count_def Let_def handler_Post_stdout_update
      split: prod.splits sum.splits)

lemma RecurrentTask_Run_run_count:
  "run_count (snd (RecurrentTask_Run E t a h w)) = Suc (run_count w)"
  by (simp add: RecurrentTask_Run_def print_def run_count_def Let_def handler_Post_stdout_update
      split: prod.splits sum.splits)

lemma Run_run_count: "run_count (snd (Run E t a h w)) = Suc (run_count w)"
  by (cases t) (simp_all add: OneTimeTask_Run_run_count RecurrentTask_Run_run_count)

lemma refreshGameData_run_count:
  "run_count (snd (refreshGameData E c g k t p w)) = run_count w"
  by (simp add: run_count_def refreshGameData_stdout)

text \<open>
  C1 says that \<open>Run\<close> is called twice when the first call fails and the refresh
  succeeds, and once when the refresh fails too. The code does the opposite, since
  \<open>runTaskWithRetry\<close> tests the body that \<open>refreshGameData\<close> returns where it means to
  test its error: when the first \<open>Run\<close> fails and the refresh returns no error, \<open>Run\<close> has
  been called exactly once; when the refresh returns an error, exactly twice.
\<close>

theorem runTaskWithRetry_run_count:
  "fst (Run E t a h w) \<noteq> None \<Longrightarrow>
     (snd (fst (refreshGameData E (HttpClient h) (GameName h) (APIKey h) (Telegram a)
                  (HandlerProxy h) (snd (Run E t a h w)))) = None \<longrightarrow>
        run_count (snd (runTaskWithRetry E h a t w)) = run_count w + 1) \<and>
     (snd (fst (refreshGameData E (HttpClient h) (GameName h) (APIKey h) (Telegram a)
                  (HandlerProxy h) (snd (Run E t a h w)))) \<noteq> None \<longrightarrow>
        run_count (snd (runTaskWithRetry E h a t w)) = run_count w + 2)"
proof -
  assume failed: "fst (Run E t a h w) \<noteq> None"
  obtain err w1 where r1: "Run E t a h w = (Some err, w1)"
    using failed by (cases "Run E t a h w") auto
  obtain body rerr w2 where r2:
    "refreshGameData E (HttpClient h) (GameName h) (APIKey h) (Telegram a) (HandlerProxy h) w1
       = ((body, rerr), w2)"
    by (metis surj_pair)
  obtain e3 w3 where r3: "Run E t a h w2 = (e3, w3)"
    by (cases "Run E t a h w2")
  have c1: "run_count w1 = Suc (run_count w)"
    using Run_run_count [of E t a h w] r1 by simp
  have c2: "run_count w2 = run_count w1"
    using refreshGameData_run_count [of E "HttpClient h" "GameName h" "APIKey h" "Telegram a" "HandlerProxy h" w1] r2
    by simp
  have c3: "run_count w3 = Suc (run_count w2)"
    using Run_run_count [of E t a h w2] r3 by simp
  have shape: "(body \<noteq> None \<and> rerr = None) \<or> (body = None \<and> rerr \<noteq> None)"
    using refreshGameData_results [of E "HttpClient h" "GameName h" "APIKey h" "Telegram a" "HandlerProxy h" w1] r2
    by auto
  show ?thesis
    using r1 r2 r3 c1 c2 c3 shape
    by (auto simp: runTaskWithRetry_def split: option.splits)
qed

theorem runTaskWithRetry_run_count_witness:
  "fst (Run (test_env [answer 500 ''expired'', answer 200 ''fresh''])
         (OneTimeTask claim_task) test_account (test_handler []) empty_world) \<noteq> None \<and>
   fst (refreshGameData (test_env [answer 500 ''expired'', answer 200 ''fresh''])
         direct_client ''game'' ''key'' (Telegram test_account) zero_Proxy
         (snd (Run (test_env [answer 500 ''expired'', answer 200 ''fresh''])
                 (OneTimeTask claim_task) test_account (test_handler []) empty_world)))
     = (Some ''fresh'', None) \<and>
   run_count (snd (runTaskWithRetry (test_env [answer 500 ''expired'', answer 200 ''fresh''])
                     (test_handler []) test_account (OneTimeTask claim_task) empty_world)) = 1 \<and>
   fst (Run (test_env [answer 500 ''expired'', answer 401 ''denied'', answer 200 ''ok''])
         (OneTimeTask claim_task) test_account (test_handler []) empty_world) \<noteq> None \<and>
   fst (refreshGameData (test_env [answer 500 ''expired'', answer 401 ''denied'', answer 200 ''ok''])
         direct_client ''game'' ''key'' (Telegram test_account) zero_Proxy
         (snd (Run (test_env [answer 500 ''expired'', answer 401 ''denied'', answer 200 ''ok''])
                 (OneTimeTask claim_task) test_account (test_handler []) empty_world)))
     = (None, Some ''denied'') \<and>
   run_count (snd (runTaskWithRetry
                     (test_env [answer 500 ''expired'', answer 401 ''denied'', answer 200 ''ok''])
                     (test_handler []) test_account (OneTimeTask claim_task) empty_world)) = 2"
  using
    runTaskWithRetry_run_count
      [of "test_env [answer 500 ''expired'', answer 200 ''fresh'']"
          "OneTimeTask claim_task" test_account "test_handler []" empty_world]
    runTaskWithRetry_run_count
      [of "test_env [answer 500 ''expired'', answer 401 ''denied'', answer 200 ''ok'']"
          "OneTimeTask claim_task" test_account "test_handler []" empty_world]
  by (simp add: test_env_def scripted_def answer_def test_account_def direct_client_def
      test_handler_def empty_world_def zero_Proxy_def claim_task_def
      runTaskWithRetry_def OneTimeTask_Run_def refreshGameData_def handler_Post_def Post_def
      DoRequest_def print_def GetBaseURL_def run_count_def Let_def)

section \<open>The task list: theorems\<close>

text \<open>
  C8: \<open>AddTask\<close> puts the task at the end of the task list: the tasks stored before
  keep their places, the length grows by one, and no other field of the handler
  changes. \<open>SetBaseURL\<close>, the only other operation that changes the handler, leaves
  the list as it is, so no operation removes a task. Adding the tasks of a list
  \<open>ts\<close> one after the other appends \<open>ts\<close>: the length grows by the number of calls.
\<close>

theorem AddTask_appends:
  "Tasks (AddTask h t) = Tasks h @ [t] \<and>
   length (Tasks (AddTask h t)) = length (Tasks h) + 1 \<and>
   take (length (Tasks h)) (Tasks (AddTask h t)) = Tasks h \<and>
   AddTask h t = h\<lparr>Tasks := Tasks h @ [t]\<rparr> \<and>
   GameName (AddTask h t) = GameName h \<and>
   BaseURL (AddTask h t) = BaseURL h \<and>
   HandlerProxy (AddTask h t) = HandlerProxy h \<and>
   APIKey (AddTask h t) = APIKey h \<and>
   Accounts (AddTask h t) = Accounts h \<and>
   HttpClient (AddTask h t) = HttpClient h \<and>
   Tasks (SetBaseURL h url) = Tasks h \<and>
   Tasks (fold (\<lambda>task handler. AddTask handler task) ts h) = Tasks h @ ts \<and>
   length (Tasks (fold (\<lambda>task handler. AddTask handler task) ts h)) = length (Tasks h) + length ts"
proof -
  have "Tasks (fold (\<lambda>task handler. AddTask handler task) ts h) = Tasks h @ ts"
    by (induction ts arbitrary: h) (simp_all add: AddTask_def)
  then show ?thesis
    by (simp add: AddTask_def SetBaseURL_def)
qed

section \<open>Running all tasks: theorems\<close>

lemma account_goroutine_blocked:
  "RecurrentTask r i \<in> set tasks \<Longrightarrow> \<not> has_returned (account_goroutine n E h a tasks w)"
proof (induction tasks arbitrary: w)
  case Nil
  then show ?case by simp
next
  case (Cons t tasks)
  then show ?case by (cases t) auto
qed

lemma RecurrentTask_Run_one_time_run_count:
  "one_time_run_count (snd (RecurrentTask_Run E t a h w)) = one_time_run_count w"
  by (simp add: RecurrentTask_Run_def print_def one_time_run_count_def Let_def
      handler_Post_stdout_update split: prod.splits sum.splits)

lemma refreshGameData_one_time_run_count:
  "one_time_run_count (snd (refreshGameData E c g k t p w)) = one_time_run_count w"
  by (simp add: one_time_run_count_def refreshGameData_stdout)

lemma runTaskWithRetry_recurrent_one_time_run_count:
  "one_time_run_count (snd (runTaskWithRetry E h a (RecurrentTask r i) w)) = one_time_run_count w"
proof -
  obtain e1 w1 where r1: "RecurrentTask_Run E r a h w = (e1, w1)"
    by (cases "RecurrentTask_Run E r a h w")
  obtain res w2 where r2:
    "refreshGameData E (HttpClient h) (GameName h) (APIKey h) (Telegram a) (HandlerProxy h) w1
       = (res, w2)"
    by (cases "refreshGameData E (HttpClient h) (GameName h) (APIKey h) (Telegram a) (HandlerProxy h) w1")
  obtain e3 w3 where r3: "RecurrentTask_Run E r a h w2 = (e3, w3)"
    by (cases "RecurrentTask_Run E r a h w2")
  have c1: "one_time_run_count w1 = one_time_run_count w"
    using RecurrentTask_Run_one_time_run_count [of E r a h w] r1 by simp
  have c2: "one_time_run_count w2 = one_time_run_count w1"
    using refreshGameData_one_time_run_count
            [of E "HttpClient h" "GameName h" "APIKey h" "Telegram a" "HandlerProxy h" w1] r2
    by simp
  have c3: "one_time_run_count w3 = one_time_run_count w2"
    using RecurrentTask_Run_one_time_run_count [of E r a h w2] r3 by simp
  show ?thesis
    using r1 r2 r3 c1 c2 c3
    by (auto simp: runTaskWithRetry_def split: option.splits prod.splits)
qed

lemma ticker_loop_one_time_run_count:
  "one_time_run_count (ticker_loop n E h a (RecurrentTask r i) w) = one_time_run_count w"
  by (induction n arbitrary: w)
    (simp_all add: retry_step runTaskWithRetry_recurrent_one_time_run_count)

text \<open>
  C2 says that \<open>RunTasks\<close> does not wait on the loop of a recurrent task and that the
  loop does not keep the later tasks of the account from running. In the code the
  loop runs inside the goroutine of the account. With at least one account and a
  recurrent task in the list, \<open>RunTasks\<close> has not returned after any number of ticks;
  and a goroutine that has reached a recurrent task (with a positive interval) is
  inside its loop after any number of ticks, and no one-time task has been started
  since.
\<close>

theorem recurrent_task_runs_inline:
  "(Accounts h \<noteq> [] \<and> RecurrentTask r interval \<in> set (Tasks h) \<longrightarrow>
      \<not> RunTasks_returns n E h w) \<and>
   (0 < interval \<longrightarrow>
      (\<exists>w'. account_goroutine n E h a (RecurrentTask r interval # later) w = InTickerLoop w' \<and>
            one_time_run_count w' = one_time_run_count w))"
proof -
  have "\<not> RunTasks_returns n E h w"
    if some: "Accounts h \<noteq> []" and rec: "RecurrentTask r interval \<in> set (Tasks h)"
  proof -
    obtain a0 rest where acc: "Accounts h = a0 # rest"
      using some by (auto simp: neq_Nil_conv)
    have "\<not> has_returned (account_goroutine n E h a0 (Tasks h) w)"
      using rec by (rule account_goroutine_blocked)
    then show ?thesis
      by (simp add: RunTasks_returns_def acc Let_def)
  qed
  then show ?thesis
    by (auto simp: ticker_loop_one_time_run_count)
qed

theorem recurrent_task_runs_inline_witness:
  "\<forall>n. \<not> RunTasks_returns n (test_env [])
               (test_handler [RecurrentTask heartbeat_task Second, OneTimeTask claim_task])
               empty_world \<and>
        (\<exists>w'. account_goroutine n (test_env [])
                 (test_handler [RecurrentTask heartbeat_task Second, OneTimeTask claim_task])
                 test_account [RecurrentTask heartbeat_task Second, OneTimeTask claim_task]
                 empty_world = InTickerLoop w' \<and>
               one_time_run_count w' = 0)"
proof
  fix n
  show "\<not> RunTasks_returns n (test_env [])
               (test_handler [RecurrentTask heartbeat_task Second, OneTimeTask claim_task])
               empty_world \<and>
        (\<exists>w'. account_goroutine n (test_env [])
                 (test_handler [RecurrentTask heartbeat_task Second, OneTimeTask claim_task])
                 test_account [RecurrentTask heartbeat_task Second, OneTimeTask claim_task]
                 empty_world = InTickerLoop w' \<and>
               one_time_run_count w' = 0)"
    using recurrent_task_runs_inline
      [of "test_handler [RecurrentTask heartbeat_task Second, OneTimeTask claim_task]"
          heartbeat_task Second n "test_env []" empty_world test_account
          "[OneTimeTask claim_task]"]
    by (simp add: test_handler_def Second_def one_time_run_count_def empty_world_def)
qed

end
